theory Spec2Isabelle
  imports Complex_Main
begin

section \<open>Strings and numbers of the source language\<close>

text \<open>
  A JavaScript string is the list of its UTF-16 code units, each a natural number;
  \<open>js\<close> turns a literal of ASCII characters into such a list. \<open>whitespace\<close> holds of the
  code units \<^verbatim>\<open>String.prototype.trim\<close> strips (white space and line terminators), and
  \<open>blank s\<close> is the guard \<^verbatim>\<open>!s || !s.trim()\<close>.
\<close>

type_synonym jsstring = "nat list"

definition js :: "string \<Rightarrow> jsstring" where
  "js s = map of_char s"

definition whitespace :: "nat \<Rightarrow> bool" where
  "whitespace c =
     (c \<in> {0x09, 0x0A, 0x0B, 0x0C, 0x0D, 0x20, 0xA0, 0x1680, 0x2028, 0x2029, 0x202F, 0x205F,
            0x3000, 0xFEFF}
      \<or> (0x2000 \<le> c \<and> c \<le> 0x200A))"

definition trim :: "jsstring \<Rightarrow> jsstring" where
  "trim s = rev (dropWhile whitespace (rev (dropWhile whitespace s)))"

definition blank :: "jsstring \<Rightarrow> bool" where
  "blank s = (s = [] \<or> trim s = [])"

text \<open>
  A JavaScript number is an IEEE 754 double: a finite value, an infinity or NaN. The two
  zeros are one value \<open>Num 0\<close>; nothing modelled here tells them apart.

  \<open>fl x\<close> is the double that the real number \<open>x\<close> rounds to, to nearest with ties to
  even: \<open>ulp x\<close> is the spacing of the doubles around \<open>x\<close> (52 fraction bits, smallest
  exponent \<open>-1074\<close>), and a result of magnitude \<open>2^1024\<close> or more is an infinity. Sum,
  difference, product and quotient of finite doubles are the rounded exact results.
  \<^verbatim>\<open>Math.sqrt\<close> is the correctly rounded root and \<^verbatim>\<open>x ** 2\<close> the correctly rounded
  square, as the engines compute them.
\<close>

datatype jsnum = Num real | PosInf | NegInf | NaN

definition roundEven :: "real \<Rightarrow> int" where
  "roundEven y =
     (let f = \<lfloor>y\<rfloor> in
        if y - real_of_int f < 1 / 2 then f
        else if y - real_of_int f > 1 / 2 then f + 1
        else if even f then f else f + 1)"

definition ulp :: "real \<Rightarrow> real" where
  "ulp x = 2 powr real_of_int (max (\<lfloor>log 2 \<bar>x\<bar>\<rfloor> - 52) (- 1074))"

definition fl :: "real \<Rightarrow> jsnum" where
  "fl x =
     (if x = 0 then Num 0
      else let r = real_of_int (roundEven (x / ulp x)) * ulp x in
        if 2 powr 1024 \<le> \<bar>r\<bar> then (if 0 < x then PosInf else NegInf) else Num r)"

text \<open>\<open>exact x\<close>: the real number \<open>x\<close> is a double.\<close>

definition exact :: "real \<Rightarrow> bool" where
  "exact x = (fl x = Num x)"

fun jlt :: "jsnum \<Rightarrow> jsnum \<Rightarrow> bool" where
  "jlt NaN _ = False"
| "jlt _ NaN = False"
| "jlt (Num x) (Num y) = (x < y)"
| "jlt NegInf NegInf = False"
| "jlt NegInf _ = True"
| "jlt _ NegInf = False"
| "jlt PosInf _ = False"
| "jlt _ PosInf = True"


fun jadd :: "jsnum \<Rightarrow> jsnum \<Rightarrow> jsnum" where
  "jadd NaN _ = NaN"
| "jadd _ NaN = NaN"
| "jadd (Num x) (Num y) = fl (x + y)"
| "jadd PosInf NegInf = NaN"
| "jadd NegInf PosInf = NaN"
| "jadd PosInf _ = PosInf"
| "jadd _ PosInf = PosInf"
| "jadd NegInf _ = NegInf"
| "jadd _ NegInf = NegInf"


fun positive :: "jsnum \<Rightarrow> bool" where
  "positive (Num x) = (0 < x)"
| "positive PosInf = True"
| "positive NegInf = False"
| "positive NaN = False"

fun jmul :: "jsnum \<Rightarrow> jsnum \<Rightarrow> jsnum" where
  "jmul NaN _ = NaN"
| "jmul _ NaN = NaN"
| "jmul (Num x) (Num y) = fl (x * y)"
| "jmul a b =
     (if a = Num 0 \<or> b = Num 0 then NaN
      else if positive a = positive b then PosInf else NegInf)"

text \<open>\<^verbatim>\<open>Math.floor\<close>, \<^verbatim>\<open>Math.sqrt\<close>, the quotient \<^verbatim>\<open>x / 100\<close> and the power \<^verbatim>\<open>x ** 2\<close>.\<close>

fun jfloor :: "jsnum \<Rightarrow> jsnum" where
  "jfloor (Num x) = Num (real_of_int \<lfloor>x\<rfloor>)"
| "jfloor v = v"




section \<open>Data model (src/models/firestore.ts)\<close>

text \<open>
  Epoch milliseconds and minutes are integers (\<open>int\<close>); coordinates and scores, on
  which the modelled functions only compare, are real numbers; the points balance, on
  which they compute, is a double (\<open>jsnum\<close>). The string unions \<^verbatim>\<open>PinType\<close> and
  \<^verbatim>\<open>ParkingStatus\<close> are datatypes, one constructor per literal, and an optional field
  is an \<open>option\<close>.
\<close>

datatype PinType = WalkIn | LeavingSoon

datatype ParkingStatus =
    PotentiallyFree
  | Verified
  | Expired
  | Occupied
  | WalkInPending
  | WalkInExpired
  | LeavingSoonActive
  | LeavingSoonExpired

record Location =
  latitude :: real
  longitude :: real

text \<open>
  A document of the \<^verbatim>\<open>parkingSpots\<close> collection: the fields of the interface
  \<^verbatim>\<open>ParkingSpot\<close> (the id is the document's key) and the \<^verbatim>\<open>updatedAt\<close> stamp that
  every write adds.
\<close>

record ParkingSpot =
  userId :: jsstring
  location :: Location
  pinType :: PinType
  willLeaveIn :: "int option"
  isPaid :: bool
  status :: ParkingStatus
  expiresAt :: int
  createdAt :: int
  priorityScore :: real
  vehicleBrand :: "jsstring option"
  vehicleModel :: "jsstring option"
  vehicleColor :: "jsstring option"
  title :: "jsstring option"
  description :: "jsstring option"
  updatedAt :: int

text \<open>A document of the \<^verbatim>\<open>users\<close> collection (interface \<^verbatim>\<open>User\<close>).\<close>

record User =
  displayName :: jsstring
  rating :: real
  parkPoints :: jsnum
  reliabilityScore :: real
  badges :: "jsstring list"
  isTester :: bool
  isPremium :: bool
  isActive :: bool
  isOnboarded :: bool
  userUpdatedAt :: int

text \<open>
  A document of the \<^verbatim>\<open>parkHistory\<close> collection as \<^verbatim>\<open>confirmParking\<close> writes it;
  \<open>confirmerId\<close> is the field the source calls \<^verbatim>\<open>userId\<close>.
\<close>

record ParkHistory =
  confirmerId :: jsstring
  historySpotId :: jsstring
  authorUserId :: jsstring
  confirmedAt :: int
  ratingGiven :: "real option"

text \<open>
  A collection is a list of keyed documents. \<open>getDoc\<close> reads the document of a key,
  \<open>updateDoc\<close> rewrites it in place and \<open>addDoc\<close> appends a document under the key the
  store generated for it.
\<close>

type_synonym 'a collection = "(jsstring \<times> 'a) list"

definition getDoc :: "jsstring \<Rightarrow> 'a collection \<Rightarrow> 'a option" where
  "getDoc k ds = map_of ds k"

definition updateDoc :: "jsstring \<Rightarrow> ('a \<Rightarrow> 'a) \<Rightarrow> 'a collection \<Rightarrow> 'a collection" where
  "updateDoc k f ds = map (\<lambda>(i, d). if i = k then (i, f d) else (i, d)) ds"

definition addDoc :: "jsstring \<Rightarrow> 'a \<Rightarrow> 'a collection \<Rightarrow> 'a collection" where
  "addDoc k d ds = ds @ [(k, d)]"

record Db =
  parkingSpots :: "ParkingSpot collection"
  users :: "User collection"
  parkHistory :: "ParkHistory collection"

text \<open>Every \<^verbatim>\<open>throw new Error(...)\<close> of the modelled functions is one constructor.\<close>

datatype error =
    UserIdRequired
  | SpotIdRequired
  | InvalidLatitude
  | InvalidLongitude
  | WillLeaveInRange
  | AlreadyActiveLeavingSoon
  | ExpiresAtNotFuture
  | PriorityScoreNegative
  | SpotNotFound
  | PermissionDenied
  | SpotNotAvailable
  | SpotExpired
  | UserNotFound
  | PointsNegative
  | MultiplierTooSmall
  | ReferenceError
  | TitleTooShort
  | DescriptionTooShort
  | PinTypeNotSelected
  | InvalidCoordinates
  | NotLoggedIn
  | LeavingTimeRange

section \<open>Points service (src/services/pointsService.ts)\<close>

text \<open>
  \<^verbatim>\<open>awardPoints\<close>: the three argument checks, the final amount, the read of the user
  document and the \<^verbatim>\<open>increment(finalPoints)\<close> write, which adds to the balance in double
  arithmetic. \<open>serverNow\<close> is the time the server puts in place of
  \<^verbatim>\<open>serverTimestamp()\<close>. The result is the updated collection with the amount granted.
\<close>

definition awardPoints ::
  "int \<Rightarrow> jsstring \<Rightarrow> jsnum \<Rightarrow> bool \<Rightarrow> jsnum \<Rightarrow> User collection
     \<Rightarrow> error + (User collection \<times> jsnum)"
where
  "awardPoints serverNow uid basePoints premium multiplier us =
     (if blank uid then Inl UserIdRequired
      else if jlt basePoints (Num 0) then Inl PointsNegative
      else if jlt multiplier (Num 1) then Inl MultiplierTooSmall
      else
        let finalPoints = (if premium then jfloor (jmul basePoints multiplier) else basePoints)
        in case getDoc uid us of
             None \<Rightarrow> Inl UserNotFound
           | Some _ \<Rightarrow>
               Inr (updateDoc uid
                      (\<lambda>u. u\<lparr>parkPoints := jadd (parkPoints u) finalPoints,
                             userUpdatedAt := serverNow\<rparr>) us,
                    finalPoints))"

definition awardPointsForVerifiedPin ::
  "int \<Rightarrow> jsstring \<Rightarrow> bool \<Rightarrow> jsnum \<Rightarrow> User collection \<Rightarrow> error + (User collection \<times> jsnum)"
where
  "awardPointsForVerifiedPin serverNow uid premium multiplier us =
     (let basePoints = Num 10 in awardPoints serverNow uid basePoints premium multiplier us)"

definition awardPointsForParkingConfirmation ::
  "int \<Rightarrow> jsstring \<Rightarrow> bool \<Rightarrow> User collection \<Rightarrow> error + (User collection \<times> jsnum)"
where
  "awardPointsForParkingConfirmation serverNow uid premium us =
     (let basePoints = Num 5 in awardPoints serverNow uid basePoints premium (Num 2) us)"



section \<open>Parking service (src/services/parkingService.ts)\<close>

text \<open>
  \<^verbatim>\<open>convertToParkingSpot\<close> on a well-typed document: numbers, booleans and the two
  unions are read as they are; an optional string that is empty reads as undefined
  (\<^verbatim>\<open>data.title ? String(data.title) : undefined\<close>). A converted spot is the pair of
  the document id and the fields.
\<close>

definition nonEmptyString :: "jsstring option \<Rightarrow> jsstring option" where
  "nonEmptyString v = (case v of None \<Rightarrow> None | Some t \<Rightarrow> if t = [] then None else Some t)"

definition convertToParkingSpot :: "jsstring \<times> ParkingSpot \<Rightarrow> jsstring \<times> ParkingSpot" where
  "convertToParkingSpot doc =
     (fst doc,
      (snd doc)\<lparr>vehicleBrand := nonEmptyString (vehicleBrand (snd doc)),
                vehicleModel := nonEmptyString (vehicleModel (snd doc)),
                vehicleColor := nonEmptyString (vehicleColor (snd doc)),
                title := nonEmptyString (title (snd doc)),
                description := nonEmptyString (description (snd doc))\<rparr>)"

definition expiredStatuses :: "ParkingStatus set" where
  "expiredStatuses = {Expired, WalkInExpired, LeavingSoonExpired}"

text \<open>
  \<^verbatim>\<open>getUserParkingSpots\<close>: the query \<^verbatim>\<open>where('userId', '==', userId)\<close>, the filter on
  status and expiry when \<^verbatim>\<open>includeExpired\<close> is false, and the stable sort on
  \<^verbatim>\<open>createdAt\<close>, newest first.
\<close>

definition getUserParkingSpots ::
  "int \<Rightarrow> jsstring \<Rightarrow> bool \<Rightarrow> ParkingSpot collection \<Rightarrow> error + ParkingSpot collection"
where
  "getUserParkingSpots now uid includeExpired store =
     (if blank uid then Inl UserIdRequired
      else Inr (sort_key (\<lambda>doc. - createdAt (snd doc))
             (filter (\<lambda>doc. includeExpired \<or>
                        (status (snd doc) \<notin> expiredStatuses \<and> \<not> expiresAt (snd doc) \<le> now))
                (map convertToParkingSpot
                   (filter (\<lambda>doc. userId (snd doc) = uid) store)))))"

text \<open>
  The filter both \<^verbatim>\<open>createParkingSpot\<close> and the form's \<^verbatim>\<open>handleSubmit\<close> apply to the
  owner's spots before a leaving-soon pin is created.
\<close>

definition activeLeavingSoon :: "int \<Rightarrow> ParkingSpot collection \<Rightarrow> ParkingSpot collection" where
  "activeLeavingSoon now userSpots =
     filter (\<lambda>doc. pinType (snd doc) = LeavingSoon \<and> status (snd doc) = LeavingSoonActive
                  \<and> expiresAt (snd doc) > now) userSpots"

text \<open>
  \<^verbatim>\<open>createParkingSpot\<close>, check by check in the order of the source. The checks on the
  JavaScript type of a field and on the pin type's membership in
  \<^verbatim>\<open>['walk-in', 'leaving-soon']\<close> cannot fail on typed data. A falsy \<^verbatim>\<open>willLeaveIn\<close> or
  \<^verbatim>\<open>expiresAt\<close> is an absent or zero one. An error of the owner's query other than the
  function's own message is logged and does not block. \<open>now\<close> is the device clock
  (\<^verbatim>\<open>Date.now()\<close>) while the function runs; \<open>serverNow\<close> is the time the server puts in
  place of \<^verbatim>\<open>serverTimestamp()\<close> when it commits the document, which overwrites the
  caller's \<^verbatim>\<open>createdAt\<close>; \<open>newId\<close> is the id \<^verbatim>\<open>addDoc\<close> generates.
\<close>

definition createParkingSpot ::
  "int \<Rightarrow> int \<Rightarrow> jsstring \<Rightarrow> ParkingSpot \<Rightarrow> ParkingSpot collection
     \<Rightarrow> error + (jsstring \<times> ParkingSpot collection)"
where
  "createParkingSpot now serverNow newId spotData store =
     (if blank (userId spotData) then Inl UserIdRequired
      else if latitude (location spotData) < - 90 \<or> latitude (location spotData) > 90
        then Inl InvalidLatitude
      else if longitude (location spotData) < - 180 \<or> longitude (location spotData) > 180
        then Inl InvalidLongitude
      else if pinType spotData = LeavingSoon \<and>
              (case willLeaveIn spotData of
                 None \<Rightarrow> True
               | Some w \<Rightarrow> w = 0 \<or> w < 2 \<or> w > 60)
        then Inl WillLeaveInRange
      else if pinType spotData = LeavingSoon \<and>
              (case getUserParkingSpots now (userId spotData) False store of
                 Inl _ \<Rightarrow> False
               | Inr userSpots \<Rightarrow> length (activeLeavingSoon now userSpots) > 0)
        then Inl AlreadyActiveLeavingSoon
      else if expiresAt spotData = 0 \<or> expiresAt spotData < now then Inl ExpiresAtNotFuture
      else if priorityScore spotData < 0 then Inl PriorityScoreNegative
      else Inr (newId,
             addDoc newId (spotData\<lparr>createdAt := serverNow, updatedAt := serverNow\<rparr>) store))"

text \<open>
  \<^verbatim>\<open>updateParkingSpot\<close>. The patch has one optional entry per field the function
  copies (\<^verbatim>\<open>isPaid\<close> is read although the parameter's type does not list it). The
  validations of pin type and status cannot fail on typed data. The function does not read
  the device clock; \<open>serverNow\<close> is the time the server puts in place of
  \<^verbatim>\<open>serverTimestamp()\<close>.
\<close>

record SpotUpdates =
  newTitle :: "jsstring option"
  newDescription :: "jsstring option"
  newPinType :: "PinType option"
  newStatus :: "ParkingStatus option"
  newWillLeaveIn :: "int option"
  newExpiresAt :: "int option"
  newIsPaid :: "bool option"

definition applyUpdates :: "int \<Rightarrow> SpotUpdates \<Rightarrow> ParkingSpot \<Rightarrow> ParkingSpot" where
  "applyUpdates serverNow updates d =
     d\<lparr>updatedAt := serverNow,
       title := (case newTitle updates of None \<Rightarrow> title d | Some t \<Rightarrow> Some (trim t)),
       description :=
         (case newDescription updates of None \<Rightarrow> description d | Some t \<Rightarrow> Some (trim t)),
       pinType := (case newPinType updates of None \<Rightarrow> pinType d | Some v \<Rightarrow> v),
       status := (case newStatus updates of None \<Rightarrow> status d | Some v \<Rightarrow> v),
       willLeaveIn := (case newWillLeaveIn updates of None \<Rightarrow> willLeaveIn d | Some v \<Rightarrow> Some v),
       expiresAt := (case newExpiresAt updates of None \<Rightarrow> expiresAt d | Some v \<Rightarrow> v),
       isPaid := (case newIsPaid updates of None \<Rightarrow> isPaid d | Some v \<Rightarrow> v)\<rparr>"

definition updateParkingSpot ::
  "int \<Rightarrow> jsstring \<Rightarrow> jsstring \<Rightarrow> SpotUpdates \<Rightarrow> ParkingSpot collection
     \<Rightarrow> error + ParkingSpot collection"
where
  "updateParkingSpot serverNow spotId uid updates store =
     (if blank spotId then Inl SpotIdRequired
      else if blank uid then Inl UserIdRequired
      else case getDoc spotId store of
             None \<Rightarrow> Inl SpotNotFound
           | Some spotData \<Rightarrow>
               if userId spotData \<noteq> uid then Inl PermissionDenied
               else if (case newWillLeaveIn updates of
                          None \<Rightarrow> False
                        | Some w \<Rightarrow> w < 2 \<or> w > 60)
                 then Inl WillLeaveInRange
               else Inr (updateDoc spotId (applyUpdates serverNow updates) store))"

subsection \<open>Distance and the nearby listener\<close>

text \<open>
  \<^verbatim>\<open>calculateDistance\<close> and \<^verbatim>\<open>Math.atan2\<close> are given over the real numbers: the
  quantity the code approximates. The doubles the code computes go through
  \<^verbatim>\<open>Math.sin\<close>, \<^verbatim>\<open>Math.cos\<close> and \<^verbatim>\<open>Math.atan2\<close>, whose results the language leaves to the
  implementation, so they are not determined by the source. Between identical
  coordinates both are 0.
\<close>

definition atan2 :: "real \<Rightarrow> real \<Rightarrow> real" where
  "atan2 y x =
     (if x > 0 then arctan (y / x)
      else if x < 0 then (if y \<ge> 0 then arctan (y / x) + pi else arctan (y / x) - pi)
      else if y > 0 then pi / 2
      else if y < 0 then - pi / 2
      else 0)"

definition calculateDistance :: "real \<Rightarrow> real \<Rightarrow> real \<Rightarrow> real \<Rightarrow> real" where
  "calculateDistance lat1 lon1 lat2 lon2 =
     (let R = 6371;
          dLat = ((lat2 - lat1) * pi) / 180;
          dLon = ((lon2 - lon1) * pi) / 180;
          a = sin (dLat / 2) * sin (dLat / 2) +
              cos ((lat1 * pi) / 180) * cos ((lat2 * pi) / 180) *
                sin (dLon / 2) * sin (dLon / 2);
          c = 2 * atan2 (sqrt a) (sqrt (1 - a))
      in R * c)"

text \<open>
  \<^verbatim>\<open>listenToNearbySpots\<close>. \<open>dKm\<close> is the distance the callback computes from the
  center to a spot. The query is built once, with the clock value of the
  subscription (\<open>subscribedAt\<close>): \<open>nearbyQuery\<close> is its result on a state of the
  collection. \<open>onSnapshot\<close> is the listener's callback, which runs on every result the
  store pushes and hands the returned list to \<^verbatim>\<open>onChange\<close>. The callback does not read
  the clock. Documents are listed in the order of the collection; the properties below
  are about membership.
\<close>

definition nearbyQuery :: "int \<Rightarrow> ParkingSpot collection \<Rightarrow> ParkingSpot collection" where
  "nearbyQuery subscribedAt store = filter (\<lambda>doc. expiresAt (snd doc) > subscribedAt) store"

definition dKm :: "Location \<Rightarrow> jsstring \<times> ParkingSpot \<Rightarrow> real" where
  "dKm center spot =
     calculateDistance (latitude center) (longitude center)
       (latitude (location (snd spot))) (longitude (location (snd spot)))"

definition onSnapshot ::
  "Location \<Rightarrow> real \<Rightarrow> ParkingSpot collection \<Rightarrow> ParkingSpot collection"
where
  "onSnapshot center radiusM snapshot =
     filter (\<lambda>spot. status (snd spot) \<notin> expiredStatuses \<and> dKm center spot * 1000 \<le> radiusM)
       (map convertToParkingSpot snapshot)"

definition listenToNearbySpots ::
  "Location \<Rightarrow> real \<Rightarrow> int \<Rightarrow> ParkingSpot collection \<Rightarrow> ParkingSpot collection"
where
  "listenToNearbySpots center radiusM subscribedAt store =
     onSnapshot center radiusM (nearbyQuery subscribedAt store)"

subsection \<open>Confirmation\<close>

text \<open>
  The callback \<^verbatim>\<open>confirmParking\<close> passes to \<^verbatim>\<open>runTransaction\<close>: the read, the two
  guards in the order of the source, and the two writes. \<open>now\<close> is the device clock
  (\<^verbatim>\<open>Date.now()\<close>) of the expiry guard and of \<^verbatim>\<open>confirmedAt\<close>, \<open>serverNow\<close> the time
  the server puts in place of \<^verbatim>\<open>serverTimestamp()\<close> when the transaction commits, and
  \<open>historyId\<close> the id generated for the new \<^verbatim>\<open>parkHistory\<close> document.
\<close>

definition confirmTransaction ::
  "int \<Rightarrow> int \<Rightarrow> jsstring \<Rightarrow> jsstring \<Rightarrow> jsstring \<Rightarrow> Db \<Rightarrow> error + Db"
where
  "confirmTransaction now serverNow historyId spotId confirmerUserId db =
     (case getDoc spotId (parkingSpots db) of
        None \<Rightarrow> Inl SpotNotFound
      | Some spot \<Rightarrow>
          if status spot \<noteq> PotentiallyFree \<and> status spot \<noteq> Verified then Inl SpotNotAvailable
          else if expiresAt spot < now then Inl SpotExpired
          else Inr (db\<lparr>parkingSpots :=
                          updateDoc spotId (\<lambda>d. d\<lparr>status := Verified, updatedAt := serverNow\<rparr>)
                            (parkingSpots db),
                        parkHistory :=
                          addDoc historyId
                            \<lparr>confirmerId = confirmerUserId, historySpotId = spotId,
                             authorUserId = userId spot, confirmedAt = now, ratingGiven = None\<rparr>
                            (parkHistory db)\<rparr>))"

text \<open>
  \<^verbatim>\<open>confirmParking\<close> returns the state it leaves with its outcome, since an error after
  the commit does not undo the commit. After the transaction it calls
  \<^verbatim>\<open>awardPointsForVerifiedPin(confirmerUserId, false)\<close> and then evaluates
  \<^verbatim>\<open>spot.userId\<close> for the second award. The constant \<^verbatim>\<open>spot\<close> is declared inside the
  transaction callback and is not in scope there, so that evaluation throws a
  \<^verbatim>\<open>ReferenceError\<close> and \<^verbatim>\<open>awardPointsForParkingConfirmation\<close> is not reached.
  \<open>awardedAt\<close> is the server's time for the write of the award.
\<close>

definition confirmParking ::
  "int \<Rightarrow> int \<Rightarrow> int \<Rightarrow> jsstring \<Rightarrow> jsstring \<Rightarrow> jsstring \<Rightarrow> Db \<Rightarrow> Db \<times> (error + unit)"
where
  "confirmParking now serverNow awardedAt historyId spotId confirmerUserId db =
     (case confirmTransaction now serverNow historyId spotId confirmerUserId db of
        Inl e \<Rightarrow> (db, Inl e)
      | Inr db1 \<Rightarrow>
          (case awardPointsForVerifiedPin awardedAt confirmerUserId False (Num 2) (users db1) of
             Inl e \<Rightarrow> (db1, Inl e)
           | Inr (us, _) \<Rightarrow> (db1\<lparr>users := us\<rparr>, Inl ReferenceError)))"

section \<open>Map pins (src/components/map/useMapPins.ts)\<close>

record MapPin =
  pinId :: jsstring
  coordinate :: Location
  pinKind :: PinType
  pinStatus :: ParkingStatus
  pinExpiresAt :: int
  authorId :: jsstring
  pinWillLeaveIn :: "int option"
  pinIsPaid :: bool
  pinCreatedAt :: int
  pinTitle :: "jsstring option"
  pinDescription :: "jsstring option"

text \<open>
  The callback \<^verbatim>\<open>useMapPins\<close> registers with \<^verbatim>\<open>listenToNearbySpots\<close>, run at clock
  value \<open>now\<close> on a delivered list: the filter on expiry and status, then the
  transformation to pins.
\<close>

definition toMapPin :: "int \<Rightarrow> jsstring \<times> ParkingSpot \<Rightarrow> MapPin" where
  "toMapPin now spot =
     \<lparr>pinId = fst spot,
      coordinate = \<lparr>latitude = latitude (location (snd spot)),
                    longitude = longitude (location (snd spot))\<rparr>,
      pinKind = pinType (snd spot),
      pinStatus = status (snd spot),
      pinExpiresAt = expiresAt (snd spot),
      authorId = userId (snd spot),
      pinWillLeaveIn = willLeaveIn (snd spot),
      pinIsPaid = isPaid (snd spot),
      pinCreatedAt = (if createdAt (snd spot) = 0 then now else createdAt (snd spot)),
      pinTitle = title (snd spot),
      pinDescription = description (snd spot)\<rparr>"

definition useMapPins :: "int \<Rightarrow> ParkingSpot collection \<Rightarrow> MapPin list" where
  "useMapPins now spots =
     map (toMapPin now)
       (filter (\<lambda>spot. \<not> expiresAt (snd spot) \<le> now \<and> status (snd spot) \<notin> expiredStatuses)
          spots)"

section \<open>Add-spot form (AddParkingSpotScreen)\<close>

record AddSpotForm =
  formTitle :: jsstring
  formDescription :: jsstring
  selectedPinType :: "PinType option"
  willLeaveInMinutes :: int
  formIsPaid :: bool
  paramLatitude :: "real option"
  paramLongitude :: "real option"
  userUid :: "jsstring option"

text \<open>A missing or zero coordinate, and a missing or empty uid, are falsy.\<close>

definition validateForm :: "AddSpotForm \<Rightarrow> error option" where
  "validateForm form =
     (if formTitle form = [] \<or> length (trim (formTitle form)) \<le> 3 then Some TitleTooShort
      else if formDescription form = [] \<or> length (trim (formDescription form)) \<le> 10
        then Some DescriptionTooShort
      else if selectedPinType form = None then Some PinTypeNotSelected
      else if paramLatitude form \<in> {None, Some 0} \<or> paramLongitude form \<in> {None, Some 0}
        then Some InvalidCoordinates
      else if userUid form \<in> {None, Some []} then Some NotLoggedIn
      else None)"

text \<open>
  \<^verbatim>\<open>handleSubmit\<close>: an error it shows in an alert is the result \<open>Inl\<close>; the silent
  \<^verbatim>\<open>return\<close> of its second guard leaves the collection as it is. The device clock is read
  three times: \<open>created\<close> when the form computes \<^verbatim>\<open>createdAt\<close> and \<^verbatim>\<open>expiresAt\<close>,
  \<open>checked\<close> during its own check of the owner's spots, and \<open>now\<close> inside
  \<^verbatim>\<open>createParkingSpot\<close>; \<open>serverNow\<close> is the server's commit time.
\<close>

definition handleSubmit ::
  "int \<Rightarrow> int \<Rightarrow> int \<Rightarrow> int \<Rightarrow> jsstring \<Rightarrow> AddSpotForm \<Rightarrow> ParkingSpot collection
     \<Rightarrow> error + ParkingSpot collection"
where
  "handleSubmit created checked now serverNow newId form store =
     (case validateForm form of
        Some e \<Rightarrow> Inl e
      | None \<Rightarrow>
          (case (userUid form, paramLatitude form, paramLongitude form, selectedPinType form) of
             (Some uid, Some lat, Some lon, Some pt) \<Rightarrow>
               if uid = [] \<or> lat = 0 \<or> lon = 0 then Inr store
               else
                 let spotData = (\<lambda>w expires st.
                       \<lparr>userId = uid,
                        location = \<lparr>latitude = lat, longitude = lon\<rparr>,
                        pinType = pt,
                        willLeaveIn = Some w,
                        isPaid = formIsPaid form,
                        status = st,
                        expiresAt = expires,
                        createdAt = created,
                        priorityScore = 0,
                        vehicleBrand = None, vehicleModel = None, vehicleColor = None,
                        title = Some (trim (formTitle form)),
                        description = Some (trim (formDescription form)),
                        updatedAt = created\<rparr>)
                 in if pt = WalkIn then
                      map_sum id snd
                        (createParkingSpot now serverNow newId
                           (spotData 10 (created + 10 * 60 * 1000) WalkInPending) store)
                    else if willLeaveInMinutes form < 2 \<or> willLeaveInMinutes form > 60
                      then Inl LeavingTimeRange
                    else
                      (case getUserParkingSpots checked uid False store of
                         Inl e \<Rightarrow> Inl e
                       | Inr userSpots \<Rightarrow>
                           if length (activeLeavingSoon checked userSpots) > 0
                             then Inl AlreadyActiveLeavingSoon
                           else
                             map_sum id snd
                               (createParkingSpot now serverNow newId
                                  (spotData (willLeaveInMinutes form)
                                     (created + willLeaveInMinutes form * 60 * 1000)
                                     LeavingSoonActive) store))
           | _ \<Rightarrow> Inr store))"

section \<open>Example data\<close>

definition ann :: User where
  "ann = \<lparr>displayName = js ''Ann'', rating = 5, parkPoints = Num 0, reliabilityScore = 50,
           badges = [], isTester = False, isPremium = False, isActive = True,
           isOnboarded = True, userUpdatedAt = 0\<rparr>"

definition bob :: User where
  "bob = \<lparr>displayName = js ''Bob'', rating = 5, parkPoints = Num 7, reliabilityScore = 50,
           badges = [], isTester = False, isPremium = False, isActive = True,
           isOnboarded = True, userUpdatedAt = 0\<rparr>"

definition exampleUsers :: "User collection" where
  "exampleUsers = [(js ''ann'', ann), (js ''bob'', bob)]"

text \<open>A user document whose id is the single code unit U+00A0 (no-break space).\<close>

definition nbspUsers :: "User collection" where
  "nbspUsers = [([0xA0], bob)]"

definition annSpot :: ParkingSpot where
  "annSpot = \<lparr>userId = js ''ann'', location = \<lparr>latitude = 40, longitude = - 74\<rparr>,
     pinType = LeavingSoon, willLeaveIn = Some 15, isPaid = False, status = LeavingSoonActive,
     expiresAt = 1900000, createdAt = 1000000, priorityScore = 0,
     vehicleBrand = None, vehicleModel = None, vehicleColor = None,
     title = Some (js ''Main St''), description = Some (js ''Leaving in a bit''),
     updatedAt = 1000000\<rparr>"

definition annForm :: "int \<Rightarrow> AddSpotForm" where
  "annForm minutes = \<lparr>formTitle = js ''Main St'', formDescription = js ''Leaving in a bit'',
     selectedPinType = Some LeavingSoon, willLeaveInMinutes = minutes, formIsPaid = False,
     paramLatitude = Some 40, paramLongitude = Some (- 74), userUid = Some (js ''ann'')\<rparr>"

definition examplePatch :: SpotUpdates where
  "examplePatch = \<lparr>newTitle = Some (js '' Oak St ''), newDescription = None,
      newPinType = Some WalkIn, newStatus = Some WalkInPending, newWillLeaveIn = Some 10,
      newExpiresAt = Some 2000000, newIsPaid = Some True\<rparr>"

definition annRelistedSpot :: ParkingSpot where
  "annRelistedSpot = annSpot\<lparr>status := PotentiallyFree\<rparr>"

definition annSecondSpot :: ParkingSpot where
  "annSecondSpot = annSpot\<lparr>expiresAt := 2400000, createdAt := 1500000\<rparr>"

definition exampleDb :: "ParkingStatus \<Rightarrow> Db" where
  "exampleDb st = \<lparr>parkingSpots = [(js ''s1'', annSpot\<lparr>status := st\<rparr>)],
      users = exampleUsers, parkHistory = []\<rparr>"

definition walkInForm :: AddSpotForm where
  "walkInForm = (annForm 15)\<lparr>selectedPinType := Some WalkIn\<rparr>"

text \<open>
  The document stored when \<open>walkInForm\<close> is submitted at device time 1000000 and
  committed at server time 1000300.
\<close>

definition walkInSpot :: ParkingSpot where
  "walkInSpot = \<lparr>userId = js ''ann'', location = \<lparr>latitude = 40, longitude = - 74\<rparr>,
     pinType = WalkIn, willLeaveIn = Some 10, isPaid = False, status = WalkInPending,
     expiresAt = 1600000, createdAt = 1000300, priorityScore = 0,
     vehicleBrand = None, vehicleModel = None, vehicleColor = None,
     title = Some (js ''Main St''), description = Some (js ''Leaving in a bit''),
     updatedAt = 1000300\<rparr>"

definition homeCenter :: Location where
  "homeCenter = \<lparr>latitude = 40, longitude = - 74\<rparr>"

definition lateSpot :: ParkingSpot where
  "lateSpot = annSpot\<lparr>userId := js ''bob'', pinType := WalkIn, willLeaveIn := Some 10,
     status := WalkInPending, expiresAt := 2600000, createdAt := 2000000,
     updatedAt := 2000000\<rparr>"

section \<open>Collections: reading after a write\<close>

lemma getDoc_updateDoc_same:
  "getDoc k ds = Some d \<Longrightarrow> getDoc k (updateDoc k f ds) = Some (f d)"
  unfolding getDoc_def updateDoc_def
  by (induction ds) (auto split: if_splits)

lemma getDoc_updateDoc_other:
  "j \<noteq> k \<Longrightarrow> getDoc j (updateDoc k f ds) = getDoc j ds"
  unfolding getDoc_def updateDoc_def
  by (induction ds) auto

lemma getDoc_addDoc_fresh:
  "getDoc k ds = None \<Longrightarrow> getDoc k (addDoc k d ds) = Some d"
  unfolding getDoc_def addDoc_def
  by (simp add: map_add_def)

lemma getDoc_addDoc_old:
  "getDoc j ds = Some d' \<Longrightarrow> getDoc j (addDoc k d ds) = Some d'"
  unfolding getDoc_def addDoc_def
  by (simp add: map_add_def)

lemma not_blank_ann: "\<not> blank (js ''ann'')"
  by (simp add: blank_def trim_def whitespace_def js_def)

lemma not_blank_bob: "\<not> blank (js ''bob'')"
  by (simp add: blank_def trim_def whitespace_def js_def)

lemma not_blank_s1: "\<not> blank (js ''s1'')"
  by (simp add: blank_def trim_def whitespace_def js_def)

section \<open>Rounding to a double\<close>

lemma roundEven_near: "\<bar>y - real_of_int m\<bar> < 1 / 2 \<Longrightarrow> roundEven y = m"
proof -
  assume a: "\<bar>y - real_of_int m\<bar> < 1 / 2"
  show ?thesis
  proof (cases "real_of_int m \<le> y")
    case True
    then have "\<lfloor>y\<rfloor> = m" using a by (intro floor_unique) auto
    then show ?thesis using a True by (simp add: roundEven_def)
  next
    case False
    then have "\<lfloor>y\<rfloor> = m - 1" using a by (intro floor_unique) auto
    then show ?thesis using a False by (simp add: roundEven_def Let_def)
  qed
qed

lemma roundEven_int [simp]: "roundEven (real_of_int m) = m"
  by (rule roundEven_near) simp


lemma ulp_eq:
  assumes "2 powr real_of_int e \<le> \<bar>x\<bar>" and "\<bar>x\<bar> < 2 powr real_of_int (e + 1)"
  shows "ulp x = 2 powr real_of_int (max (e - 52) (- 1074))"
proof -
  have "0 < \<bar>x\<bar>" using assms(1) by (smt (verit) powr_gt_zero)
  then have "\<lfloor>log 2 \<bar>x\<bar>\<rfloor> = e"
    using assms by (simp add: floor_log_eq_powr_iff)
  then show ?thesis by (simp add: ulp_def)
qed

text \<open>
  The value the rounding returns, from the binary exponent \<open>e\<close> of its argument and the
  integer \<open>m\<close> its scaled argument rounds to.
\<close>

lemma fl_eq:
  assumes e: "2 powr real_of_int e \<le> \<bar>x\<bar>" "\<bar>x\<bar> < 2 powr real_of_int (e + 1)"
    and q: "q = max (e - 52) (- 1074)"
    and m: "roundEven (x / 2 powr real_of_int q) = m"
    and b: "\<bar>real_of_int m * 2 powr real_of_int q\<bar> < 2 powr 1024"
  shows "fl x = Num (real_of_int m * 2 powr real_of_int q)"
proof -
  have "x \<noteq> 0" using e(1) by (smt (verit) powr_gt_zero)
  moreover have "ulp x = 2 powr real_of_int q" using ulp_eq [OF e] q by simp
  ultimately show ?thesis using m b by (simp add: fl_def Let_def del: powr_numeral)
qed

lemma two_powr_nat: "0 \<le> j \<Longrightarrow> 2 powr real_of_int j = (2::real) ^ nat j"
  using powr_realpow [of 2 "nat j"] by simp

lemma fl_exact:
  assumes x: "x = real_of_int n * 2 powr real_of_int k"
    and n: "\<bar>n\<bar> < 2 ^ 53" and k: "- 1074 \<le> k" and b: "\<bar>x\<bar> < 2 powr 1024"
  shows "fl x = Num x"
proof (cases "x = 0")
  case True
  then show ?thesis by (simp add: fl_def)
next
  case False
  define e where "e = \<lfloor>log 2 \<bar>x\<bar>\<rfloor>"
  define q where "q = max (e - 52) (- 1074)"
  have pos: "0 < \<bar>x\<bar>" using False by simp
  have e: "2 powr real_of_int e \<le> \<bar>x\<bar>" "\<bar>x\<bar> < 2 powr real_of_int (e + 1)"
    using floor_log_eq_powr_iff [of "\<bar>x\<bar>" 2 e] pos by (simp_all add: e_def)
  have "\<bar>x\<bar> = real_of_int \<bar>n\<bar> * 2 powr real_of_int k"
    by (simp add: x abs_mult)
  also have "\<dots> < 2 ^ 53 * 2 powr real_of_int k"
  proof -
    have "real_of_int \<bar>n\<bar> < 2 ^ 53" using n by (metis of_int_less_numeral_power_cancel_iff)
    then show ?thesis by (simp del: of_int_abs)
  qed
  also have "\<dots> = 2 powr real_of_int (53 + k)"
    by (simp add: powr_add)
  finally have "2 powr real_of_int e < 2 powr real_of_int (53 + k)"
    using e(1) by linarith
  then have ek: "e - 52 \<le> k" by simp
  then have qk: "q \<le> k" using k by (simp add: q_def)
  have "x / 2 powr real_of_int q = real_of_int n * 2 powr real_of_int (k - q)"
    by (simp add: x powr_diff)
  also have "\<dots> = real_of_int n * 2 ^ nat (k - q)"
    using qk two_powr_nat [of "k - q"] by simp
  also have "\<dots> = real_of_int (n * 2 ^ nat (k - q))" by simp
  finally have r: "roundEven (x / 2 powr real_of_int q) = n * 2 ^ nat (k - q)"
    by (simp only: roundEven_int)
  have unscale: "real_of_int (n * 2 ^ nat (k - q)) * 2 powr real_of_int q = x"
  proof -
    have "real_of_int (n * 2 ^ nat (k - q)) * 2 powr real_of_int q
        = real_of_int n * (2 powr real_of_int (k - q) * 2 powr real_of_int q)"
      using qk two_powr_nat [of "k - q"] by simp
    also have "\<dots> = real_of_int n * 2 powr real_of_int k"
      by (simp add: powr_add [symmetric])
    finally show ?thesis by (simp add: x)
  qed
  show ?thesis
    using fl_eq [OF e q_def r] b unscale by simp
qed

lemma fl_int:
  assumes "\<bar>n\<bar> \<le> 2 ^ 53"
  shows "fl (real_of_int n) = Num (real_of_int n)"
proof (cases "\<bar>n\<bar> < 2 ^ 53")
  case True
  have "real_of_int \<bar>n\<bar> < 2 ^ 53" using True by (metis of_int_less_numeral_power_cancel_iff)
  also have "(2::real) ^ 53 < 2 powr 1024" by simp
  finally have "\<bar>real_of_int n\<bar> < 2 powr 1024" by simp
  then show ?thesis
    using fl_exact [of "real_of_int n" n 0] True by simp
next
  case False
  with assms have "\<bar>n\<bar> = 2 ^ 53" by simp
  then consider "n = 2 ^ 53" | "n = - (2 ^ 53)" by (auto simp: abs_if split: if_splits)
  then show ?thesis
  proof cases
    case 1
    have "fl (real_of_int (2 ^ 52) * 2 powr real_of_int 1) = Num (real_of_int (2 ^ 52) * 2 powr real_of_int 1)"
      by (rule fl_exact [OF refl]) simp_all
    then show ?thesis using 1 by simp
  next
    case 2
    have "fl (real_of_int (- (2 ^ 52)) * 2 powr real_of_int 1) = Num (real_of_int (- (2 ^ 52)) * 2 powr real_of_int 1)"
      by (rule fl_exact [OF refl]) simp_all
    then show ?thesis using 2 by simp
  qed
qed

lemma fl_near:
  assumes "2 powr real_of_int e \<le> \<bar>x\<bar>" "\<bar>x\<bar> < 2 powr real_of_int (e + 1)"
    and "q = max (e - 52) (- 1074)"
    and "\<bar>x / 2 powr real_of_int q - real_of_int m\<bar> < 1 / 2"
    and "\<bar>real_of_int m * 2 powr real_of_int q\<bar> < 2 powr 1024"
  shows "fl x = Num (real_of_int m * 2 powr real_of_int q)"
  using fl_eq [OF assms(1,2,3) roundEven_near [OF assms(4)] assms(5)] .


lemma exact_int: "\<bar>n\<bar> \<le> 2 ^ 53 \<Longrightarrow> exact (real_of_int n)"
  by (simp add: exact_def fl_int)

section \<open>Points ledger\<close>

text \<open>
  C8, as the code has it. For an existing user whose id is not blank, a base amount
  \<open>b \<ge> 0\<close> and a multiplier \<open>m \<ge> 1\<close> such that the product \<open>b * m\<close> (for a premium call)
  and the new balance are doubles, \<^verbatim>\<open>awardPoints\<close> returns \<open>floor (b * m)\<close> for a premium
  call and \<open>b\<close> otherwise, adds exactly that amount to the user's balance and leaves every
  other user document as it was; with base 10 and multiplier 2 the balance grows by 20 for
  a premium call and by 10 otherwise. Every integer of magnitude at most \<open>2^53\<close> is a
  double.
\<close>

theorem C8_awardPoints_granted:
  assumes "getDoc uid us = Some u" and "\<not> blank uid" and "parkPoints u = Num p"
    and "0 \<le> b" and "1 \<le> m"
    and "premium \<longrightarrow> exact (b * m)"
    and "exact (p + (if premium then real_of_int \<lfloor>b * m\<rfloor> else b))"
  shows "(\<exists>us'. awardPoints now uid (Num b) premium (Num m) us =
            Inr (us', Num (if premium then real_of_int \<lfloor>b * m\<rfloor> else b))
          \<and> map_option parkPoints (getDoc uid us') =
              Some (Num (p + (if premium then real_of_int \<lfloor>b * m\<rfloor> else b)))
          \<and> (\<forall>j. j \<noteq> uid \<longrightarrow> getDoc j us' = getDoc j us))
       \<and> (exact (p + 20) \<longrightarrow>
            (\<exists>us'. awardPoints now uid (Num 10) True (Num 2) us = Inr (us', Num 20)
               \<and> map_option parkPoints (getDoc uid us') = Some (Num (p + 20))))
       \<and> (exact (p + 10) \<longrightarrow>
            (\<exists>us'. awardPoints now uid (Num 10) False (Num 2) us = Inr (us', Num 10)
               \<and> map_option parkPoints (getDoc uid us') = Some (Num (p + 10))))
       \<and> (\<forall>n. \<bar>n\<bar> \<le> 2 ^ 53 \<longrightarrow> exact (real_of_int n))"
proof (intro conjI impI allI)
  show "\<exists>us'. awardPoints now uid (Num b) premium (Num m) us =
            Inr (us', Num (if premium then real_of_int \<lfloor>b * m\<rfloor> else b))
          \<and> map_option parkPoints (getDoc uid us') =
              Some (Num (p + (if premium then real_of_int \<lfloor>b * m\<rfloor> else b)))
          \<and> (\<forall>j. j \<noteq> uid \<longrightarrow> getDoc j us' = getDoc j us)"
    using assms
    by (cases premium)
      (simp_all add: awardPoints_def Let_def exact_def getDoc_updateDoc_same
        getDoc_updateDoc_other)
next
  assume "exact (p + 20)"
  moreover have "fl (10 * 2) = Num 20" using fl_int [of 20] by simp
  ultimately show "\<exists>us'. awardPoints now uid (Num 10) True (Num 2) us = Inr (us', Num 20)
               \<and> map_option parkPoints (getDoc uid us') = Some (Num (p + 20))"
    using assms(1,2,3)
    by (simp add: awardPoints_def Let_def exact_def getDoc_updateDoc_same)
next
  assume "exact (p + 10)"
  then show "\<exists>us'. awardPoints now uid (Num 10) False (Num 2) us = Inr (us', Num 10)
               \<and> map_option parkPoints (getDoc uid us') = Some (Num (p + 10))"
    using assms(1,2,3)
    by (simp add: awardPoints_def Let_def exact_def getDoc_updateDoc_same)
next
  fix n :: int
  assume "\<bar>n\<bar> \<le> 2 ^ 53"
  then show "exact (real_of_int n)" by (rule exact_int)
qed

lemma exact_7_5: "exact (5 * (3 / 2))"
proof -
  have "fl (real_of_int 15 * 2 powr real_of_int (- 1)) = Num (real_of_int 15 * 2 powr real_of_int (- 1))"
    by (rule fl_exact [OF refl]) (simp_all add: powr_minus)
  then show ?thesis by (simp add: exact_def powr_minus)
qed

theorem C8_awardPoints_granted_witness:
  "getDoc (js ''bob'') exampleUsers = Some bob \<and> \<not> blank (js ''bob'') \<and> parkPoints bob = Num 7
   \<and> (0::real) \<le> 5 \<and> (1::real) \<le> 3 / 2 \<and> exact (5 * (3 / 2)) \<and> exact (7 + 7) \<and> exact (7 + 20)
   \<and> (\<exists>us'. awardPoints 1000 (js ''bob'') (Num 5) True (Num (3 / 2)) exampleUsers = Inr (us', Num 7)
          \<and> map_option parkPoints (getDoc (js ''bob'') us') = Some (Num 14))
   \<and> (\<exists>us'. awardPoints 1000 (js ''bob'') (Num 10) True (Num 2) exampleUsers = Inr (us', Num 20)
          \<and> map_option parkPoints (getDoc (js ''bob'') us') = Some (Num 27))"
proof -
  have g: "getDoc (js ''bob'') exampleUsers = Some bob"
    by (simp add: getDoc_def exampleUsers_def js_def)
  have p: "parkPoints bob = Num 7"
    by (simp add: bob_def)
  have f: "\<lfloor>5 * (3 / 2) :: real\<rfloor> = 7" by simp
  have e14: "exact (7 + 7)" using exact_int [of 14] by simp
  have e27: "exact (7 + 20)" using exact_int [of 27] by simp
  have h: "exact (7 + (if True then real_of_int \<lfloor>5 * (3 / 2) :: real\<rfloor> else 5))"
    using e14 by (simp add: f)
  show ?thesis
    using C8_awardPoints_granted [OF g not_blank_bob p, of 5 "3 / 2" True 1000] exact_7_5 h
      g not_blank_bob p e14 e27
    by (simp add: f) blast
qed

lemma fl_product: "fl (9007199254740991 * 3) = Num 27021597764222972"
  using fl_near [of 54 "9007199254740991 * 3" 2 6755399441055743] by simp

text \<open>
  The claim as stated fails twice. An existing account whose id is a no-break space is
  refused with "User ID is required". For base \<open>2^53 - 1\<close> and multiplier 3 a premium
  call is granted 27021597764222972, which is not \<open>floor (base * multiplier)\<close>.
\<close>

theorem C8_counterexample:
  "getDoc [0xA0] nbspUsers = Some bob
   \<and> awardPoints 1000 [0xA0] (Num 10) True (Num 2) nbspUsers = Inl UserIdRequired
   \<and> getDoc (js ''bob'') exampleUsers = Some bob
   \<and> map_sum id snd (awardPoints 1000 (js ''bob'') (Num 9007199254740991) True (Num 3) exampleUsers)
       = Inr (Num 27021597764222972)
   \<and> real_of_int \<lfloor>9007199254740991 * 3 :: real\<rfloor> = 27021597764222973"
  using fl_product
  by (simp add: awardPoints_def Let_def getDoc_def nbspUsers_def exampleUsers_def js_def
      blank_def trim_def whitespace_def)








section \<open>Spot store\<close>

text \<open>
  C9. A successful \<^verbatim>\<open>updateParkingSpot\<close> keeps the spot's owner, location and creation
  time: the stored document differs from the one before in at most title, description,
  pin type, status, willLeaveIn, expiresAt, isPaid and updatedAt, and every other document
  of the collection is as it was.
\<close>

theorem C9_update_frame:
  assumes "updateParkingSpot now spotId uid updates store = Inr store'"
  shows "\<exists>old new. getDoc spotId store = Some old \<and> getDoc spotId store' = Some new
      \<and> userId new = userId old \<and> location new = location old \<and> createdAt new = createdAt old
      \<and> new\<lparr>title := title old, description := description old, pinType := pinType old,
             status := status old, willLeaveIn := willLeaveIn old, expiresAt := expiresAt old,
             isPaid := isPaid old, updatedAt := updatedAt old\<rparr> = old
      \<and> (\<forall>j. j \<noteq> spotId \<longrightarrow> getDoc j store' = getDoc j store)"
proof -
  from assms obtain old where old: "getDoc spotId store = Some old"
    and st: "store' = updateDoc spotId (applyUpdates now updates) store"
    by (auto simp: updateParkingSpot_def split: if_splits option.splits)
  have new: "getDoc spotId store' = Some (applyUpdates now updates old)"
    using old st by (simp add: getDoc_updateDoc_same)
  have frame: "(applyUpdates now updates old)\<lparr>title := title old, description := description old,
        pinType := pinType old, status := status old, willLeaveIn := willLeaveIn old,
        expiresAt := expiresAt old, isPaid := isPaid old, updatedAt := updatedAt old\<rparr> = old"
    by (simp add: applyUpdates_def)
  have keep: "userId (applyUpdates now updates old) = userId old"
    "location (applyUpdates now updates old) = location old"
    "createdAt (applyUpdates now updates old) = createdAt old"
    by (simp_all add: applyUpdates_def)
  show ?thesis
    using old new frame keep st by (simp add: getDoc_updateDoc_other)
qed

lemma update_example:
  "updateParkingSpot 1500000 (js ''s1'') (js ''ann'') examplePatch [(js ''s1'', annSpot)]
     = Inr [(js ''s1'', applyUpdates 1500000 examplePatch annSpot)]"
  by (simp add: updateParkingSpot_def not_blank_s1 not_blank_ann getDoc_def updateDoc_def
      annSpot_def examplePatch_def)

theorem C9_update_frame_witness:
  "updateParkingSpot 1500000 (js ''s1'') (js ''ann'') examplePatch [(js ''s1'', annSpot)]
     = Inr [(js ''s1'', applyUpdates 1500000 examplePatch annSpot)]
   \<and> (\<exists>old new. getDoc (js ''s1'') [(js ''s1'', annSpot)] = Some old
        \<and> getDoc (js ''s1'') [(js ''s1'', applyUpdates 1500000 examplePatch annSpot)] = Some new
        \<and> userId new = userId old \<and> location new = location old \<and> createdAt new = createdAt old
        \<and> status new = WalkInPending \<and> title new = Some (js ''Oak St''))"
  using C9_update_frame [OF update_example] update_example
  by (simp add: getDoc_def applyUpdates_def examplePatch_def trim_def whitespace_def js_def)

lemma activeLeavingSoon_iff:
  assumes "getUserParkingSpots now uid False store = Inr userSpots"
  shows "(length (activeLeavingSoon now userSpots) > 0) =
         (\<exists>doc \<in> set store. userId (snd doc) = uid \<and> pinType (snd doc) = LeavingSoon
            \<and> status (snd doc) = LeavingSoonActive \<and> expiresAt (snd doc) > now)"
proof -
  from assms have us: "set userSpots =
      {d \<in> convertToParkingSpot ` {d \<in> set store. userId (snd d) = uid}.
         status (snd d) \<notin> expiredStatuses \<and> \<not> expiresAt (snd d) \<le> now}"
    by (auto simp: getUserParkingSpots_def split: if_splits)
  have "(length (activeLeavingSoon now userSpots) > 0) =
        (\<exists>d \<in> set userSpots. pinType (snd d) = LeavingSoon \<and> status (snd d) = LeavingSoonActive
            \<and> expiresAt (snd d) > now)"
    by (auto simp: activeLeavingSoon_def filter_empty_conv)
  also have "\<dots> = (\<exists>doc \<in> set store. userId (snd doc) = uid \<and> pinType (snd doc) = LeavingSoon
            \<and> status (snd doc) = LeavingSoonActive \<and> expiresAt (snd doc) > now)"
    unfolding us
    by (force simp: convertToParkingSpot_def expiredStatuses_def)
  finally show ?thesis .
qed

lemma createParkingSpot_minutes_rejected:
  assumes "pinType spotData = LeavingSoon" and "willLeaveIn spotData = Some w"
    and "w < 2 \<or> w > 60"
  shows "createParkingSpot now serverNow newId spotData store \<in>
           Inl ` {UserIdRequired, InvalidLatitude, InvalidLongitude, WillLeaveInRange}"
  using assms by (auto simp: createParkingSpot_def)

lemma handleSubmit_minutes_rejected:
  assumes "validateForm form = None" and "selectedPinType form = Some LeavingSoon"
    and "willLeaveInMinutes form < 2 \<or> willLeaveInMinutes form > 60"
  shows "handleSubmit created checked now serverNow newId form store = Inl LeavingTimeRange"
  using assms
  by (auto simp: handleSubmit_def validateForm_def Let_def split: if_splits option.splits)

lemma handleSubmit_leaving_soon_created:
  assumes valid: "validateForm form = None"
    and ls: "selectedPinType form = Some LeavingSoon"
    and uid: "userUid form = Some uid" "\<not> blank uid"
    and lat: "paramLatitude form = Some lat" "- 90 \<le> lat" "lat \<le> 90"
    and lon: "paramLongitude form = Some lon" "- 180 \<le> lon" "lon \<le> 180"
    and w: "2 \<le> willLeaveInMinutes form" "willLeaveInMinutes form \<le> 60"
    and free: "\<not> (\<exists>doc \<in> set store. userId (snd doc) = uid \<and> pinType (snd doc) = LeavingSoon
            \<and> status (snd doc) = LeavingSoonActive \<and> expiresAt (snd doc) > min checked now)"
    and created: "0 \<le> created"
    and future: "now \<le> created + willLeaveInMinutes form * 60000"
    and fresh: "getDoc newId store = None"
  shows "\<exists>store' spot. handleSubmit created checked now serverNow newId form store = Inr store'
           \<and> getDoc newId store' = Some spot
           \<and> (\<forall>k d. getDoc k store = Some d \<longrightarrow> getDoc k store' = Some d)
           \<and> expiresAt spot = created + willLeaveInMinutes form * 60000
           \<and> createdAt spot = serverNow \<and> status spot = LeavingSoonActive
           \<and> pinType spot = LeavingSoon \<and> willLeaveIn spot = Some (willLeaveInMinutes form)
           \<and> userId spot = uid"
proof -
  obtain us1 where us1: "getUserParkingSpots checked uid False store = Inr us1"
    using uid(2) by (simp add: getUserParkingSpots_def)
  obtain us2 where us2: "getUserParkingSpots now uid False store = Inr us2"
    using uid(2) by (simp add: getUserParkingSpots_def)
  have none1: "\<not> length (activeLeavingSoon checked us1) > 0"
    unfolding activeLeavingSoon_iff [OF us1] using free by auto
  have none2: "\<not> length (activeLeavingSoon now us2) > 0"
    unfolding activeLeavingSoon_iff [OF us2] using free by auto
  from valid uid lat lon have nz: "uid \<noteq> []" "lat \<noteq> 0" "lon \<noteq> 0"
    by (auto simp: validateForm_def split: if_splits)
  let ?spot = "\<lparr>userId = uid, location = \<lparr>latitude = lat, longitude = lon\<rparr>,
      pinType = LeavingSoon, willLeaveIn = Some (willLeaveInMinutes form),
      isPaid = formIsPaid form, status = LeavingSoonActive,
      expiresAt = created + willLeaveInMinutes form * 60000, createdAt = serverNow,
      priorityScore = 0,
      vehicleBrand = None, vehicleModel = None, vehicleColor = None,
      title = Some (trim (formTitle form)), description = Some (trim (formDescription form)),
      updatedAt = serverNow\<rparr>"
  have "handleSubmit created checked now serverNow newId form store =
          Inr (addDoc newId ?spot store)"
    using ls uid lat lon w created future none1 none2 us1 us2 nz valid
    by (simp add: handleSubmit_def createParkingSpot_def Let_def mult.commute)
  then show ?thesis
    using fresh
    by (intro exI [of _ "addDoc newId ?spot store"] exI [of _ ?spot])
      (simp add: getDoc_addDoc_fresh getDoc_addDoc_old)
qed

text \<open>
  C6, as the code has it. A leaving-soon pin with \<^verbatim>\<open>willLeaveIn\<close> 1 or 61 is refused with
  a validation error, by \<^verbatim>\<open>createParkingSpot\<close> and by the form's \<^verbatim>\<open>handleSubmit\<close>. A
  valid form with a lease of 2 to 60 minutes, submitted when the device clock reads
  \<open>created\<close> by an owner without an active leaving-soon pin, under an id not yet in the
  collection and while the lease is still in the future for \<^verbatim>\<open>createParkingSpot\<close>, adds a
  spot that is read back with \<open>expiresAt = created + minutes * 60000\<close> (with 15 minutes,
  \<open>created + 900000\<close>) and keeps every other document. The stored \<^verbatim>\<open>createdAt\<close> is the
  server's commit time \<open>serverNow\<close>, not \<open>created\<close>.
\<close>

theorem C6_leaving_soon_minutes:
  "(\<forall>spotData. pinType spotData = LeavingSoon
        \<and> (willLeaveIn spotData = Some 1 \<or> willLeaveIn spotData = Some 61)
      \<longrightarrow> createParkingSpot now serverNow newId spotData store \<in>
            Inl ` {UserIdRequired, InvalidLatitude, InvalidLongitude, WillLeaveInRange})
   \<and> (validateForm form = None \<and> selectedPinType form = Some LeavingSoon
        \<and> (willLeaveInMinutes form = 1 \<or> willLeaveInMinutes form = 61)
      \<longrightarrow> handleSubmit created checked now serverNow newId form store = Inl LeavingTimeRange)
   \<and> (validateForm form = None \<and> selectedPinType form = Some LeavingSoon
        \<and> userUid form = Some uid \<and> \<not> blank uid
        \<and> paramLatitude form = Some lat \<and> - 90 \<le> lat \<and> lat \<le> 90
        \<and> paramLongitude form = Some lon \<and> - 180 \<le> lon \<and> lon \<le> 180
        \<and> 2 \<le> willLeaveInMinutes form \<and> willLeaveInMinutes form \<le> 60
        \<and> \<not> (\<exists>doc \<in> set store. userId (snd doc) = uid \<and> pinType (snd doc) = LeavingSoon
              \<and> status (snd doc) = LeavingSoonActive \<and> expiresAt (snd doc) > min checked now)
        \<and> 0 \<le> created \<and> now \<le> created + willLeaveInMinutes form * 60000
        \<and> getDoc newId store = None
      \<longrightarrow> (\<exists>store' spot.
             handleSubmit created checked now serverNow newId form store = Inr store'
             \<and> getDoc newId store' = Some spot
             \<and> (\<forall>k d. getDoc k store = Some d \<longrightarrow> getDoc k store' = Some d)
             \<and> expiresAt spot = created + willLeaveInMinutes form * 60000
             \<and> createdAt spot = serverNow
             \<and> (willLeaveInMinutes form = 15 \<longrightarrow> expiresAt spot = created + 900000)))"
proof (intro conjI allI impI)
  fix spotData :: ParkingSpot
  assume "pinType spotData = LeavingSoon
        \<and> (willLeaveIn spotData = Some 1 \<or> willLeaveIn spotData = Some 61)"
  then show "createParkingSpot now serverNow newId spotData store \<in>
            Inl ` {UserIdRequired, InvalidLatitude, InvalidLongitude, WillLeaveInRange}"
    using createParkingSpot_minutes_rejected [of spotData 1 now serverNow newId store]
      createParkingSpot_minutes_rejected [of spotData 61 now serverNow newId store]
    by auto
next
  assume "validateForm form = None \<and> selectedPinType form = Some LeavingSoon
        \<and> (willLeaveInMinutes form = 1 \<or> willLeaveInMinutes form = 61)"
  then show "handleSubmit created checked now serverNow newId form store = Inl LeavingTimeRange"
    using handleSubmit_minutes_rejected [of form created checked now serverNow newId store]
    by auto
next
  assume h: "validateForm form = None \<and> selectedPinType form = Some LeavingSoon
        \<and> userUid form = Some uid \<and> \<not> blank uid
        \<and> paramLatitude form = Some lat \<and> - 90 \<le> lat \<and> lat \<le> 90
        \<and> paramLongitude form = Some lon \<and> - 180 \<le> lon \<and> lon \<le> 180
        \<and> 2 \<le> willLeaveInMinutes form \<and> willLeaveInMinutes form \<le> 60
        \<and> \<not> (\<exists>doc \<in> set store. userId (snd doc) = uid \<and> pinType (snd doc) = LeavingSoon
              \<and> status (snd doc) = LeavingSoonActive \<and> expiresAt (snd doc) > min checked now)
        \<and> 0 \<le> created \<and> now \<le> created + willLeaveInMinutes form * 60000
        \<and> getDoc newId store = None"
  then obtain store' spot where
    "handleSubmit created checked now serverNow newId form store = Inr store'"
    "getDoc newId store' = Some spot"
    "\<forall>k d. getDoc k store = Some d \<longrightarrow> getDoc k store' = Some d"
    "expiresAt spot = created + willLeaveInMinutes form * 60000" "createdAt spot = serverNow"
    using handleSubmit_leaving_soon_created
      [of form uid lat lon store checked now created newId serverNow]
    by blast
  then show "\<exists>store' spot.
             handleSubmit created checked now serverNow newId form store = Inr store'
             \<and> getDoc newId store' = Some spot
             \<and> (\<forall>k d. getDoc k store = Some d \<longrightarrow> getDoc k store' = Some d)
             \<and> expiresAt spot = created + willLeaveInMinutes form * 60000
             \<and> createdAt spot = serverNow
             \<and> (willLeaveInMinutes form = 15 \<longrightarrow> expiresAt spot = created + 900000)"
    by (intro exI [of _ store'] exI [of _ spot]) simp
qed

lemma annForm_valid: "validateForm (annForm m) = None"
  by (simp add: validateForm_def annForm_def trim_def whitespace_def js_def)

theorem C6_leaving_soon_minutes_witness:
  "handleSubmit 1000000 1000100 1000200 1000500 (js ''s1'') (annForm 1) [] = Inl LeavingTimeRange
   \<and> createParkingSpot 1000200 1000500 (js ''s1'') (annSpot\<lparr>willLeaveIn := Some 61\<rparr>) [] \<in>
            Inl ` {UserIdRequired, InvalidLatitude, InvalidLongitude, WillLeaveInRange}
   \<and> validateForm (annForm 15) = None \<and> \<not> blank (js ''ann'')
   \<and> getDoc (js ''s1'') ([] :: ParkingSpot collection) = None
   \<and> (\<exists>store' spot.
         handleSubmit 1000000 1000100 1000200 1000500 (js ''s1'') (annForm 15) [] = Inr store'
         \<and> getDoc (js ''s1'') store' = Some spot
         \<and> expiresAt spot = 1900000 \<and> createdAt spot = 1000500)"
  using C6_leaving_soon_minutes
      [of 1000200 1000500 "js ''s1''" "[]" "annForm 1" 1000000 1000100 "js ''ann''" 40 "- 74"]
    C6_leaving_soon_minutes
      [of 1000200 1000500 "js ''s1''" "[]" "annForm 15" 1000000 1000100 "js ''ann''" 40 "- 74"]
    annForm_valid not_blank_ann
  by (simp add: annForm_def annSpot_def getDoc_def) blast

text \<open>
  The claim as stated fails: a form submitted at device time 1000000 and committed at
  server time 1000500 stores a spot with \<open>createdAt = 1000500\<close> and
  \<open>expiresAt = 1900000\<close>, which is not \<open>createdAt + 900000\<close>.
\<close>

theorem C6_counterexample:
  "validateForm (annForm 15) = None
   \<and> (\<exists>spot. handleSubmit 1000000 1000100 1000200 1000500 (js ''s1'') (annForm 15) [] =
         Inr [(js ''s1'', spot)]
       \<and> createdAt spot = 1000500 \<and> expiresAt spot = 1900000
       \<and> expiresAt spot \<noteq> createdAt spot + 900000)"
  by (simp add: handleSubmit_def validateForm_def createParkingSpot_def getUserParkingSpots_def
      activeLeavingSoon_def annForm_def trim_def whitespace_def blank_def addDoc_def js_def
      Let_def)

text \<open>
  C5, as the code has it. When the owner already has a leaving-soon spot whose stored
  status is \<^verbatim>\<open>leaving_soon_active\<close> and whose \<^verbatim>\<open>expiresAt\<close> is after the clock readings
  of the checks, creating another leaving-soon spot for that owner is refused, by
  \<^verbatim>\<open>createParkingSpot\<close> and by the form's \<^verbatim>\<open>handleSubmit\<close>.
\<close>

theorem C5_active_leaving_soon_rejected:
  assumes "doc \<in> set store" and "userId (snd doc) = userId spotData"
    and "pinType (snd doc) = LeavingSoon" and "status (snd doc) = LeavingSoonActive"
    and "expiresAt (snd doc) > now" and "pinType spotData = LeavingSoon"
  shows "createParkingSpot now serverNow newId spotData store \<in>
           Inl ` {UserIdRequired, InvalidLatitude, InvalidLongitude, WillLeaveInRange,
                  AlreadyActiveLeavingSoon}
       \<and> (\<forall>form created checked.
              validateForm form = None \<and> selectedPinType form = Some LeavingSoon
              \<and> userUid form = Some (userId spotData) \<and> expiresAt (snd doc) > checked
            \<longrightarrow> handleSubmit created checked now serverNow newId form store \<in>
                  Inl ` {LeavingTimeRange, UserIdRequired, AlreadyActiveLeavingSoon})"
proof (intro conjI allI impI)
  have own: "\<And>t. expiresAt (snd doc) > t \<Longrightarrow>
      \<exists>doc \<in> set store. userId (snd doc) = userId spotData \<and> pinType (snd doc) = LeavingSoon
            \<and> status (snd doc) = LeavingSoonActive \<and> expiresAt (snd doc) > t"
    using assms by blast
  show "createParkingSpot now serverNow newId spotData store \<in>
           Inl ` {UserIdRequired, InvalidLatitude, InvalidLongitude, WillLeaveInRange,
                  AlreadyActiveLeavingSoon}"
  proof (cases "blank (userId spotData)")
    case True
    then show ?thesis by (simp add: createParkingSpot_def)
  next
    case False
    then obtain us where us: "getUserParkingSpots now (userId spotData) False store = Inr us"
      by (simp add: getUserParkingSpots_def)
    then have "length (activeLeavingSoon now us) > 0"
      using activeLeavingSoon_iff [OF us] own [OF assms(5)] by blast
    with us assms(6) show ?thesis
      by (simp add: createParkingSpot_def)
  qed
  fix form created checked
  assume f: "validateForm form = None \<and> selectedPinType form = Some LeavingSoon
              \<and> userUid form = Some (userId spotData) \<and> expiresAt (snd doc) > checked"
  show "handleSubmit created checked now serverNow newId form store \<in>
                  Inl ` {LeavingTimeRange, UserIdRequired, AlreadyActiveLeavingSoon}"
  proof (cases "blank (userId spotData)")
    case True
    then have "getUserParkingSpots checked (userId spotData) False store = Inl UserIdRequired"
      by (simp add: getUserParkingSpots_def)
    with f show ?thesis
      by (auto simp: handleSubmit_def validateForm_def Let_def split: if_splits option.splits)
  next
    case False
    then obtain us where us: "getUserParkingSpots checked (userId spotData) False store = Inr us"
      by (simp add: getUserParkingSpots_def)
    then have "length (activeLeavingSoon checked us) > 0"
      using activeLeavingSoon_iff [OF us] own [of checked] f by blast
    with us f show ?thesis
      by (auto simp: handleSubmit_def validateForm_def Let_def split: if_splits option.splits)
  qed
qed

theorem C5_active_leaving_soon_rejected_witness:
  "(js ''s1'', annSpot) \<in> set [(js ''s1'', annSpot)] \<and> userId annSpot = userId annSecondSpot
   \<and> pinType annSpot = LeavingSoon \<and> status annSpot = LeavingSoonActive
   \<and> expiresAt annSpot > 1500000 \<and> pinType annSecondSpot = LeavingSoon
   \<and> createParkingSpot 1500000 1500300 (js ''s2'') annSecondSpot [(js ''s1'', annSpot)] \<in>
           Inl ` {UserIdRequired, InvalidLatitude, InvalidLongitude, WillLeaveInRange,
                  AlreadyActiveLeavingSoon}"
  using C5_active_leaving_soon_rejected
    [of "(js ''s1'', annSpot)" "[(js ''s1'', annSpot)]" annSecondSpot 1500000 1500300
      "js ''s2''"]
  by (simp add: annSpot_def annSecondSpot_def)

text \<open>
  The claim as stated fails: an unexpired leaving-soon spot whose stored status is
  \<^verbatim>\<open>potentially-free\<close> does not block the owner's next leaving-soon pin, and afterwards
  the owner has two unexpired leaving-soon spots with a status that is neither expired
  nor occupied.
\<close>

theorem C5_counterexample:
  "getDoc (js ''s1'') [(js ''s1'', annRelistedSpot)] = Some annRelistedSpot
   \<and> userId annRelistedSpot = userId annSecondSpot
   \<and> pinType annRelistedSpot = LeavingSoon \<and> expiresAt annRelistedSpot > 1500000
   \<and> status annRelistedSpot \<notin> {Expired, WalkInExpired, LeavingSoonExpired, Occupied}
   \<and> pinType annSecondSpot = LeavingSoon
   \<and> createParkingSpot 1500000 1500300 (js ''s2'') annSecondSpot [(js ''s1'', annRelistedSpot)] =
       Inr (js ''s2'', [(js ''s1'', annRelistedSpot),
                     (js ''s2'', annSecondSpot\<lparr>createdAt := 1500300, updatedAt := 1500300\<rparr>)])"
  by (simp add: createParkingSpot_def getUserParkingSpots_def activeLeavingSoon_def
      convertToParkingSpot_def nonEmptyString_def expiredStatuses_def addDoc_def getDoc_def
      not_blank_ann annSpot_def annSecondSpot_def annRelistedSpot_def)

section \<open>Nearby listener\<close>

lemma calculateDistance_same: "calculateDistance la lo la lo = 0"
  by (simp add: calculateDistance_def atan2_def)

lemma dKm_convert: "dKm center (convertToParkingSpot doc) = dKm center doc"
  by (simp add: dKm_def convertToParkingSpot_def)

lemma convert_fields:
  "status (snd (convertToParkingSpot doc)) = status (snd doc)"
  "expiresAt (snd (convertToParkingSpot doc)) = expiresAt (snd doc)"
  by (simp_all add: convertToParkingSpot_def)

lemma in_listen_iff:
  "spot \<in> set (listenToNearbySpots center radiusM subscribedAt store) \<longleftrightarrow>
     (\<exists>doc \<in> set store. spot = convertToParkingSpot doc \<and> subscribedAt < expiresAt (snd doc)
        \<and> status (snd doc) \<notin> expiredStatuses \<and> dKm center doc * 1000 \<le> radiusM)"
  by (auto simp: listenToNearbySpots_def onSnapshot_def nearbyQuery_def dKm_convert
      convert_fields)

text \<open>
  C4, as the code has it. The pins \<^verbatim>\<open>useMapPins\<close> computes from a delivery at clock
  value \<open>now\<close> contain no spot with \<open>expiresAt \<le> now\<close>: its callback filters on the
  clock at every delivery. The list \<^verbatim>\<open>listenToNearbySpots\<close> itself delivers is only
  known to exclude the spots that had expired when the subscription was made.
\<close>

theorem C4_map_pins_exclude_expired:
  "(\<forall>pin \<in> set (useMapPins now (listenToNearbySpots center radiusM subscribedAt store)).
       now < pinExpiresAt pin)
   \<and> (\<forall>spot \<in> set (listenToNearbySpots center radiusM subscribedAt store).
       subscribedAt < expiresAt (snd spot))"
proof (intro conjI ballI)
  fix pin
  assume "pin \<in> set (useMapPins now (listenToNearbySpots center radiusM subscribedAt store))"
  then show "now < pinExpiresAt pin"
    by (auto simp: useMapPins_def toMapPin_def)
next
  fix spot
  assume "spot \<in> set (listenToNearbySpots center radiusM subscribedAt store)"
  then obtain doc where "spot = convertToParkingSpot doc" "subscribedAt < expiresAt (snd doc)"
    unfolding in_listen_iff by blast
  then show "subscribedAt < expiresAt (snd spot)"
    by (simp add: convert_fields)
qed

lemma listen_example:
  "listenToNearbySpots homeCenter 5000 1000000 [(js ''s1'', annSpot), (js ''s3'', lateSpot)] =
     [(js ''s1'', annSpot), (js ''s3'', lateSpot)]"
  by (simp add: listenToNearbySpots_def onSnapshot_def nearbyQuery_def convertToParkingSpot_def
      nonEmptyString_def expiredStatuses_def dKm_def calculateDistance_same homeCenter_def
      annSpot_def lateSpot_def js_def)

theorem C4_map_pins_exclude_expired_witness:
  "useMapPins 2000000
     (listenToNearbySpots homeCenter 5000 1000000
        [(js ''s1'', annSpot), (js ''s3'', lateSpot)]) =
     [toMapPin 2000000 (js ''s3'', lateSpot)]
   \<and> 2000000 < pinExpiresAt (toMapPin 2000000 (js ''s3'', lateSpot))
   \<and> 1000000 < expiresAt annSpot"
proof -
  have pins: "useMapPins 2000000 [(js ''s1'', annSpot), (js ''s3'', lateSpot)] =
     [toMapPin 2000000 (js ''s3'', lateSpot)]"
    by (simp add: useMapPins_def expiredStatuses_def annSpot_def lateSpot_def)
  show ?thesis
    using C4_map_pins_exclude_expired
      [of 2000000 homeCenter 5000 1000000 "[(js ''s1'', annSpot), (js ''s3'', lateSpot)]"]
    by (simp add: listen_example pins)
qed

text \<open>
  The claim as stated fails for the listener: subscribed at 1000000, it delivers Ann's
  spot, which expires at 1900000; the delivery caused by a spot created at 2000000
  still contains Ann's spot.
\<close>

theorem C4_counterexample:
  "(js ''s1'', annSpot) \<in>
      set (listenToNearbySpots homeCenter 5000 1000000 [(js ''s1'', annSpot)])
   \<and> expiresAt annSpot \<le> 2000000
   \<and> createdAt lateSpot = 2000000
   \<and> (js ''s1'', annSpot) \<in>
        set (listenToNearbySpots homeCenter 5000 1000000
               [(js ''s1'', annSpot), (js ''s3'', lateSpot)])"
  by (simp add: listenToNearbySpots_def onSnapshot_def nearbyQuery_def convertToParkingSpot_def
      nonEmptyString_def expiredStatuses_def dKm_def calculateDistance_same homeCenter_def
      annSpot_def lateSpot_def js_def)

section \<open>Confirmation\<close>

lemma getDoc_exampleDb:
  "getDoc (js ''s1'') (parkingSpots (exampleDb st)) = Some (annSpot\<lparr>status := st\<rparr>)"
  by (simp add: exampleDb_def getDoc_def)

text \<open>
  C1. The claim says that after a committed confirmation the confirmer is awarded base 5
  points and the spot's owner base 10, doubled for a premium account. On the code, when
  Bob, who is not premium and holds 7 points, confirms the spot of Ann, who is not premium
  and holds 0 points, the transaction commits, Bob's balance becomes 17 and not 12, Ann's
  balance stays 0 and does not become 10, and \<^verbatim>\<open>confirmParking\<close> ends in a
  \<^verbatim>\<open>ReferenceError\<close>.
\<close>

theorem C1_reward_step_wrong_amounts:
  "confirmTransaction 1200000 1200400 (js ''h1'') (js ''s1'') (js ''bob'')
       (exampleDb PotentiallyFree) =
     Inr \<lparr>parkingSpots = [(js ''s1'', annSpot\<lparr>status := Verified, updatedAt := 1200400\<rparr>)],
          users = exampleUsers,
          parkHistory = [(js ''h1'', \<lparr>confirmerId = js ''bob'', historySpotId = js ''s1'',
                             authorUserId = js ''ann'', confirmedAt = 1200000,
                             ratingGiven = None\<rparr>)]\<rparr>
   \<and> getDoc (js ''bob'') (users (exampleDb PotentiallyFree)) = Some bob
   \<and> isPremium bob = False \<and> parkPoints bob = Num 7
   \<and> getDoc (js ''ann'') (users (exampleDb PotentiallyFree)) = Some ann
   \<and> isPremium ann = False \<and> parkPoints ann = Num 0
   \<and> snd (confirmParking 1200000 1200400 1200900 (js ''h1'') (js ''s1'') (js ''bob'')
            (exampleDb PotentiallyFree))
       = Inl ReferenceError
   \<and> map_option parkPoints (getDoc (js ''bob'')
        (users (fst (confirmParking 1200000 1200400 1200900 (js ''h1'') (js ''s1'') (js ''bob'')
                       (exampleDb PotentiallyFree))))) = Some (Num 17)
   \<and> map_option parkPoints (getDoc (js ''ann'')
        (users (fst (confirmParking 1200000 1200400 1200900 (js ''h1'') (js ''s1'') (js ''bob'')
                       (exampleDb PotentiallyFree))))) = Some (Num 0)"
proof -
  have "fl (7 + 10) = Num 17" using fl_int [of 17] by simp
  then show ?thesis
    by (simp add: confirmParking_def confirmTransaction_def awardPointsForVerifiedPin_def
        awardPoints_def exampleDb_def exampleUsers_def getDoc_def updateDoc_def addDoc_def
        blank_def trim_def whitespace_def annSpot_def ann_def bob_def js_def)
qed

text \<open>
  C2, as the code has it. For a spot whose \<^verbatim>\<open>expiresAt\<close> is before the current time and
  whose stored status is \<^verbatim>\<open>potentially-free\<close> or \<^verbatim>\<open>verified\<close>, \<^verbatim>\<open>confirmParking\<close>
  fails with "Spot has expired" and changes nothing. For a stored status that is occupied
  or one of the expired ones it fails with "Spot is not available", whatever
  \<^verbatim>\<open>expiresAt\<close> is: the status guard comes first.
\<close>

theorem C2_expired_or_unavailable:
  assumes "getDoc spotId (parkingSpots db) = Some spot"
  shows "(expiresAt spot < now \<and> status spot \<in> {PotentiallyFree, Verified}
            \<longrightarrow> confirmParking now serverNow awardedAt hid spotId confirmer db = (db, Inl SpotExpired))
       \<and> (status spot \<in> {Occupied, Expired, WalkInExpired, LeavingSoonExpired}
            \<longrightarrow> confirmParking now serverNow awardedAt hid spotId confirmer db = (db, Inl SpotNotAvailable))"
  using assms by (auto simp: confirmParking_def confirmTransaction_def)

theorem C2_expired_or_unavailable_witness:
  "getDoc (js ''s1'') (parkingSpots (exampleDb Verified)) = Some (annSpot\<lparr>status := Verified\<rparr>)
   \<and> expiresAt (annSpot\<lparr>status := Verified\<rparr>) < 2000000
   \<and> confirmParking 2000000 2000400 2000900 (js ''h1'') (js ''s1'') (js ''bob'') (exampleDb Verified) =
        (exampleDb Verified, Inl SpotExpired)
   \<and> confirmParking 1200000 1200400 1200900 (js ''h1'') (js ''s1'') (js ''bob'')
        (exampleDb LeavingSoonExpired) =
        (exampleDb LeavingSoonExpired, Inl SpotNotAvailable)"
  using C2_expired_or_unavailable
      [OF getDoc_exampleDb, of Verified 2000000 2000400 2000900 "js ''h1''" "js ''bob''"]
    C2_expired_or_unavailable
      [OF getDoc_exampleDb, of LeavingSoonExpired 1200000 1200400 1200900 "js ''h1''" "js ''bob''"]
    getDoc_exampleDb
  by (simp add: annSpot_def)

text \<open>
  The claim as stated fails: an occupied spot whose \<^verbatim>\<open>expiresAt\<close> has passed is refused
  with "Spot is not available", not with "Spot has expired".
\<close>

theorem C2_counterexample:
  "getDoc (js ''s1'') (parkingSpots (exampleDb Occupied)) = Some (annSpot\<lparr>status := Occupied\<rparr>)
   \<and> expiresAt (annSpot\<lparr>status := Occupied\<rparr>) \<le> 2000000
   \<and> confirmParking 2000000 2000400 2000900 (js ''h1'') (js ''s1'') (js ''bob'') (exampleDb Occupied) =
        (exampleDb Occupied, Inl SpotNotAvailable)
   \<and> confirmParking 2000000 2000400 2000900 (js ''h1'') (js ''s1'') (js ''bob'') (exampleDb Occupied) \<noteq>
        (exampleDb Occupied, Inl SpotExpired)"
  by (simp add: confirmParking_def confirmTransaction_def exampleDb_def getDoc_def annSpot_def)

text \<open>
  C3. The claim says that an unexpired spot with status \<^verbatim>\<open>walk_in_pending\<close> or
  \<^verbatim>\<open>leaving_soon_active\<close> can be confirmed. On the code it cannot: the walk-in spot the
  form creates at 1000000, and Ann's leaving-soon spot, are both refused at 1200000 with
  "Spot is not available", and nothing is written.
\<close>

theorem C3_fresh_spot_not_confirmable:
  "handleSubmit 1000000 1000100 1000200 1000300 (js ''s1'') walkInForm [] =
     Inr [(js ''s1'', walkInSpot)]
   \<and> status walkInSpot = WalkInPending \<and> 1200000 < expiresAt walkInSpot
   \<and> confirmParking 1200000 1200400 1200900 (js ''h1'') (js ''s1'') (js ''bob'')
        \<lparr>parkingSpots = [(js ''s1'', walkInSpot)], users = exampleUsers, parkHistory = []\<rparr> =
      (\<lparr>parkingSpots = [(js ''s1'', walkInSpot)], users = exampleUsers, parkHistory = []\<rparr>,
       Inl SpotNotAvailable)
   \<and> status annSpot = LeavingSoonActive \<and> 1200000 < expiresAt annSpot
   \<and> confirmParking 1200000 1200400 1200900 (js ''h1'') (js ''s1'') (js ''bob'')
        \<lparr>parkingSpots = [(js ''s1'', annSpot)], users = exampleUsers, parkHistory = []\<rparr> =
      (\<lparr>parkingSpots = [(js ''s1'', annSpot)], users = exampleUsers, parkHistory = []\<rparr>,
       Inl SpotNotAvailable)"
  by (simp add: handleSubmit_def validateForm_def createParkingSpot_def walkInForm_def annForm_def
      walkInSpot_def annSpot_def trim_def whitespace_def blank_def addDoc_def
      confirmParking_def confirmTransaction_def getDoc_def Let_def js_def)

end
